theory Spec2Isabelle
  imports Complex_Main "HOL-Library.AList" "HOL-Library.List_Lexorder" "HOL-Library.Sublist"
begin

section \<open>Values, dictionaries and exceptions\<close>

text \<open>
  The orchestrator of \<^verbatim>\<open>app/inference.py\<close> passes Python dictionaries around. A
  dictionary is an association list in insertion order with distinct keys; a subscript
  \<^verbatim>\<open>d[k]\<close> on a missing key raises \<^verbatim>\<open>KeyError\<close>. Floats occur only as distances
  and thresholds that are compared with \<^verbatim>\<open>>\<close>; they are reals here, which is
  the order of all floats other than NaN.
\<close>

datatype exn =
    MilvusException
  | PymysqlError
  | RedisError
  | KeyError string
  | IndexError
  | OtherException string

datatype pyval = PInt int | PStr string | PNone

type_synonym py_dict = "(string \<times> pyval) list"

text \<open>A value of a returned dictionary: a data value, or an exception object
  (\<^verbatim>\<open>"message": excep\<close> in \<^verbatim>\<open>get_registered_face\<close>).\<close>

datatype dval = Val pyval | ExcObj exn

type_synonym outcome = "(string \<times> dval) list"

text \<open>The dictionary returned by \<^verbatim>\<open>run_inference\<close>, which is not part of the sources:
  the three entries the orchestrator reads.\<close>

record pred_dict =
  status :: int
  face_detections :: "real list list"
  face_feats :: "real list list"

text \<open>What an operation returns: a dictionary literal, or (on a negative inference
  status) the \<^verbatim>\<open>pred_dict\<close> object itself after \<^verbatim>\<open>pred_dict["status"] = "failed"\<close>.\<close>

datatype retval = Outcome outcome | FailedPred pred_dict

text \<open>\<^verbatim>\<open>str(n)\<close> for an integer, and \<^verbatim>\<open>str(v)\<close> (what an f-string inserts).\<close>

definition digit_char :: "nat \<Rightarrow> char" where
  "digit_char d = ''0123456789'' ! d"

fun str_nat :: "nat \<Rightarrow> string" where
  "str_nat n =
     (if n < 10 then [digit_char n]
      else str_nat (n div 10) @ [digit_char (n mod 10)])"

definition str_int :: "int \<Rightarrow> string" where
  "str_int i = (if i < 0 then CHR ''-'' # str_nat (nat (- i)) else str_nat (nat i))"

fun py_str :: "pyval \<Rightarrow> string" where
  "py_str (PInt i) = str_int i"
| "py_str (PStr s) = s"
| "py_str PNone = ''None''"

section \<open>The collaborators\<close>

text \<open>
  The vector collection, the relational table and the cache are state outside the
  orchestrator. Every call to one of them is recorded in \<open>calls\<close>, in order. A call
  either completes with its ideal effect or raises; which of the two is decided by the
  environment \<open>env\<close> of the operation, one entry per call site. A call that raises
  leaves the store as it was.
\<close>

type_synonym row = "real list \<times> pyval"

record hit =
  distance :: real
  entity :: py_dict

type_synonym hits = "hit list"

datatype call =
    CQuery pyval
  | CInsert "real list" pyval
  | CFlush
  | CDelete pyval
  | CSearch "real list list"
  | CExecute "pyval list"
  | CCommit
  | CClose
  | CHset string py_dict
  | CExpire string nat

record world =
  milvus_rows :: "row list"
  mysql_rows :: "pyval list list"
  mysql_pending :: "pyval list list"
  redis_hashes :: "(string \<times> py_dict) list"
  redis_ttl :: "(string \<times> nat) list"
  calls :: "call list"

record env =
  run_inference :: "string \<Rightarrow> string \<Rightarrow> real \<Rightarrow> pred_dict"
  query_exc :: "exn option"
  insert_exc :: "exn option"
  flush_exc :: "exn option"
  delete_exc :: "exn option"
  search_res :: "exn + hits list"
  execute_exc :: "exn option"
  commit_exc :: "exn option"
  close_exc :: "exn option"
  hset_exc :: "exn option"
  expire_exc :: "exn option"

type_synonym 'a prog = "world \<Rightarrow> (exn + 'a) \<times> world"

definition return_m :: "'a \<Rightarrow> 'a prog" where
  "return_m a w = (Inr a, w)"

definition raise_m :: "exn \<Rightarrow> 'a prog" where
  "raise_m e w = (Inl e, w)"

definition bind_m :: "'a prog \<Rightarrow> ('a \<Rightarrow> 'b prog) \<Rightarrow> 'b prog" where
  "bind_m f g w = (case f w of (Inl e, w') \<Rightarrow> (Inl e, w') | (Inr a, w') \<Rightarrow> g a w')"

text \<open>\<^verbatim>\<open>try: f except C: h\<close>, with \<open>handles\<close> the class test of the clause.\<close>

definition try_except :: "'a prog \<Rightarrow> (exn \<Rightarrow> bool) \<Rightarrow> (exn \<Rightarrow> 'a prog) \<Rightarrow> 'a prog" where
  "try_except f handles h w =
     (case f w of
        (Inl e, w') \<Rightarrow> if handles e then h e w' else (Inl e, w')
      | (Inr a, w') \<Rightarrow> (Inr a, w'))"

text \<open>\<^verbatim>\<open>try: f finally: g\<close>: \<open>g\<close> always runs; if it raises, its exception replaces
  whatever \<open>f\<close> returned or raised.\<close>

definition try_finally :: "'a prog \<Rightarrow> unit prog \<Rightarrow> 'a prog" where
  "try_finally f g w =
     (case f w of (r, w') \<Rightarrow>
        (case g w' of (Inl e, w'') \<Rightarrow> (Inl e, w'') | (Inr _, w'') \<Rightarrow> (r, w'')))"

definition log_call :: "call \<Rightarrow> world \<Rightarrow> world" where
  "log_call c w = w\<lparr>calls := calls w @ [c]\<rparr>"

text \<open>An external call: logged, then either raising or applying its effect.\<close>

definition external :: "call \<Rightarrow> exn option \<Rightarrow> (world \<Rightarrow> 'a \<times> world) \<Rightarrow> 'a prog" where
  "external c exc effect w =
     (case exc of
        Some e \<Rightarrow> (Inl e, log_call c w)
      | None \<Rightarrow> (case effect (log_call c w) of (a, w') \<Rightarrow> (Inr a, w')))"

text \<open>\<^verbatim>\<open>collection.query(expr='person_id == p', offset=0, limit=10,
  output_fields=["person_id"])\<close>.\<close>

definition collection_query :: "env \<Rightarrow> pyval \<Rightarrow> py_dict list prog" where
  "collection_query ev p =
     external (CQuery p) (query_exc ev)
       (\<lambda>w. (map (\<lambda>r. [(''person_id'', snd r)])
                (take 10 (filter (\<lambda>r. snd r = p) (milvus_rows w))), w))"

text \<open>\<^verbatim>\<open>collection.insert([[face_vector], [person_id]])\<close>: one new row.\<close>

definition collection_insert :: "env \<Rightarrow> real list \<Rightarrow> pyval \<Rightarrow> unit prog" where
  "collection_insert ev v p =
     external (CInsert v p) (insert_exc ev)
       (\<lambda>w. ((), w\<lparr>milvus_rows := milvus_rows w @ [(v, p)]\<rparr>))"

definition collection_flush :: "env \<Rightarrow> unit prog" where
  "collection_flush ev = external CFlush (flush_exc ev) (\<lambda>w. ((), w))"

text \<open>\<^verbatim>\<open>collection.delete('person_id in [p]')\<close>: removes every row of that person.\<close>

definition collection_delete :: "env \<Rightarrow> pyval \<Rightarrow> unit prog" where
  "collection_delete ev p =
     external (CDelete p) (delete_exc ev)
       (\<lambda>w. ((), w\<lparr>milvus_rows := filter (\<lambda>r. snd r \<noteq> p) (milvus_rows w)\<rparr>))"

text \<open>\<^verbatim>\<open>collection.search(data=face_vector, ..., limit=3)\<close>: one list of hits per query
  vector. The approximate search itself is the collaborator's; its answer is given by
  the environment.\<close>

definition collection_search :: "env \<Rightarrow> real list list \<Rightarrow> hits list prog" where
  "collection_search ev vs w =
     (case search_res ev of
        Inl e \<Rightarrow> (Inl e, log_call (CSearch vs) w)
      | Inr res \<Rightarrow> (Inr res, log_call (CSearch vs) w))"

definition cursor_execute :: "env \<Rightarrow> pyval list \<Rightarrow> unit prog" where
  "cursor_execute ev vals =
     external (CExecute vals) (execute_exc ev)
       (\<lambda>w. ((), w\<lparr>mysql_pending := mysql_pending w @ [vals]\<rparr>))"

definition mysql_conn_commit :: "env \<Rightarrow> unit prog" where
  "mysql_conn_commit ev =
     external CCommit (commit_exc ev)
       (\<lambda>w. ((), w\<lparr>mysql_rows := mysql_rows w @ mysql_pending w, mysql_pending := []\<rparr>))"

definition cursor_close :: "env \<Rightarrow> unit prog" where
  "cursor_close ev = external CClose (close_exc ev) (\<lambda>w. ((), w))"

text \<open>\<^verbatim>\<open>redis_conn.hset(key, mapping=d)\<close> sets the fields of \<open>d\<close> in the hash at \<open>key\<close>.\<close>

definition redis_conn_hset :: "env \<Rightarrow> string \<Rightarrow> py_dict \<Rightarrow> unit prog" where
  "redis_conn_hset ev k d =
     external (CHset k d) (hset_exc ev)
       (\<lambda>w. ((), w\<lparr>redis_hashes :=
                 AList.update k
                   (AList.updates (map fst d) (map snd d)
                      (case map_of (redis_hashes w) k of None \<Rightarrow> [] | Some h \<Rightarrow> h))
                   (redis_hashes w)\<rparr>))"

definition redis_conn_expire :: "env \<Rightarrow> string \<Rightarrow> nat \<Rightarrow> unit prog" where
  "redis_conn_expire ev k t =
     external (CExpire k t) (expire_exc ev)
       (\<lambda>w. ((), if map_of (redis_hashes w) k = None then w
                  else w\<lparr>redis_ttl := AList.update k t (redis_ttl w)\<rparr>))"

text \<open>\<^verbatim>\<open>d[k]\<close>.\<close>

definition subscript :: "(string \<times> 'v) list \<Rightarrow> string \<Rightarrow> 'v prog" where
  "subscript d k = (case map_of d k of None \<Rightarrow> raise_m (KeyError k) | Some v \<Rightarrow> return_m v)"

definition MYSQL_PERSON_TABLE :: string where
  "MYSQL_PERSON_TABLE = ''person''"

section \<open>The operations of inference.py\<close>

definition get_registered_face :: "env \<Rightarrow> pyval \<Rightarrow> outcome prog" where
  "get_registered_face ev person_id =
     try_except
       (bind_m (collection_query ev person_id) (\<lambda>results.
          if results = [] then
            return_m [(''status'', Val (PStr ''failed'')),
                      (''message'', Val (PStr (''Person with id '' @ py_str person_id
                                               @ '' not found in database'')))]
          else
            bind_m (subscript (hd results) ''person_id'') (\<lambda>found_person_name.
              return_m [(''status'', Val (PStr ''success'')),
                        (''message'', Val (PStr (''Person '' @ py_str found_person_name
                                                 @ '' found'')))])))
       (\<lambda>e. e = MilvusException)
       (\<lambda>excep. return_m [(''status'', Val (PStr ''failed'')), (''message'', ExcObj excep)])"

definition unregister_face :: "env \<Rightarrow> pyval \<Rightarrow> outcome prog" where
  "unregister_face ev person_id =
     try_except
       (bind_m (collection_delete ev person_id) (\<lambda>_.
          return_m [(''status'', Val (PStr ''success'')),
                    (''message'', Val (PStr (''Person with id '' @ py_str person_id
                                             @ '' unregistered'')))]))
       (\<lambda>e. e = MilvusException)
       (\<lambda>excep. return_m [(''status'', Val (PStr ''failed'')),
                           (''message'', Val (PStr (''Person with id '' @ py_str person_id
                                                    @ '' couldn't be unregistered'')))])"

text \<open>
  \<^verbatim>\<open>register_face\<close>. The handlers of the two \<^verbatim>\<open>try\<close> blocks return from the
  function; a block yields \<open>Some\<close> of the returned dictionary then, and \<open>None\<close> when
  control goes on below it. The messages printed on the way are not modelled, but the
  subscript inside the first of them is, since it can raise. \<^verbatim>\<open>mysql_conn.cursor()\<close>
  only builds the cursor object.
\<close>

definition register_face :: "env \<Rightarrow> string \<Rightarrow> string \<Rightarrow> real \<Rightarrow> py_dict \<Rightarrow> retval prog" where
  "register_face ev model_name file_path threshold person_data =
     (let pred_dict = run_inference ev file_path model_name threshold in
      if status pred_dict = 0 \<and> face_detections pred_dict = [] then
        return_m (Outcome [(''status'', Val (PStr ''failed'')),
                           (''message'', Val (PStr ''No faces were detected in the image''))])
      else if status pred_dict < 0 then
        return_m (FailedPred pred_dict)
      else
        bind_m (subscript person_data ''id'') (\<lambda>person_id.
        bind_m (get_registered_face ev person_id) (\<lambda>registered.
        bind_m (subscript registered ''status'') (\<lambda>registered_status.
        if registered_status = Val (PStr ''success'') then
          return_m (Outcome [(''status'', Val (PStr ''failed'')),
                             (''message'', Val (PStr (''person with id '' @ py_str person_id
                                                      @ '' already exists in milvus db'')))])
        else
          (case face_feats pred_dict of
             [] \<Rightarrow> raise_m IndexError
           | face_vector # _ \<Rightarrow>
          bind_m
            (try_except
               (bind_m (collection_insert ev face_vector person_id) (\<lambda>_.
                bind_m (subscript person_data ''name'') (\<lambda>_.
                return_m None)))
               (\<lambda>e. e = MilvusException)
               (\<lambda>e. return_m (Some (Outcome [(''status'', Val (PStr ''failed'')),
                                              (''message'', Val (PStr ''milvus insertion error''))]))))
            (\<lambda>returned. case returned of Some out \<Rightarrow> return_m out | None \<Rightarrow>
          bind_m (collection_flush ev) (\<lambda>_.
          bind_m (subscript person_data ''name'') (\<lambda>name.
          bind_m (subscript person_data ''birthdate'') (\<lambda>birthdate.
          bind_m (subscript person_data ''country'') (\<lambda>country.
          bind_m (subscript person_data ''city'') (\<lambda>city.
          bind_m (subscript person_data ''title'') (\<lambda>title.
          bind_m (subscript person_data ''org'') (\<lambda>org.
          let values = [person_id, name, birthdate, country, city, title, org] in
          bind_m
            (try_finally
               (try_except
                  (bind_m (cursor_execute ev values) (\<lambda>_.
                   bind_m (mysql_conn_commit ev) (\<lambda>_.
                   return_m None)))
                  (\<lambda>e. e = PymysqlError)
                  (\<lambda>e. bind_m (unregister_face ev person_id) (\<lambda>_.
                        return_m (Some (Outcome [(''status'', Val (PStr ''failed'')),
                                                 (''message'', Val (PStr ''mysql insertion error''))])))))
               (cursor_close ev))
            (\<lambda>returned. case returned of Some out \<Rightarrow> return_m out | None \<Rightarrow>
          let redis_key = MYSQL_PERSON_TABLE @ ''_'' @ py_str person_id;
              person_data = AList.update ''birthdate'' (PStr (py_str birthdate)) person_data
          in
          bind_m (redis_conn_hset ev redis_key person_data) (\<lambda>_.
          bind_m (redis_conn_expire ev redis_key 3600) (\<lambda>_.
          bind_m (subscript person_data ''person_name'') (\<lambda>person_name.
          return_m (Outcome [(''status'', Val (PStr ''success'')),
                             (''message'', Val (PStr (''Person '' @ py_str person_name
                                                      @ '' successfully registered'')))])
          )))))))))))))))))"

text \<open>
  \<^verbatim>\<open>recognize_face\<close>. \<^verbatim>\<open>sorted(results, key=lambda k: k.distances)\<close> is a stable
  sort of the lists of hits (one per query vector) by their lists of distances, which
  Python compares lexicographically. \<^verbatim>\<open>entity.get("person_id")\<close> is \<^verbatim>\<open>None\<close> for a
  missing field.
\<close>

definition distances :: "hits \<Rightarrow> real list" where
  "distances k = map distance k"

definition entity_get :: "py_dict \<Rightarrow> string \<Rightarrow> pyval" where
  "entity_get d k = (case map_of d k of None \<Rightarrow> PNone | Some v \<Rightarrow> v)"

definition recognize_face :: "env \<Rightarrow> string \<Rightarrow> string \<Rightarrow> real \<Rightarrow> real \<Rightarrow> retval prog" where
  "recognize_face ev model_name file_path threshold face_dist_threshold =
     (let pred_dict = run_inference ev file_path model_name threshold in
      if status pred_dict = 0 \<and> face_detections pred_dict = [] then
        return_m (Outcome [(''status'', Val (PStr ''failed'')),
                           (''message'', Val (PStr ''No faces were detected in the image''))])
      else if status pred_dict < 0 then
        return_m (FailedPred pred_dict)
      else
        bind_m (collection_search ev (face_feats pred_dict)) (\<lambda>results.
        if results = [] then
          return_m (Outcome [(''status'', Val (PStr ''failed'')),
                             (''message'', Val (PStr ''No saved face entries found in database''))])
        else
          (case sort_key distances results of
             [] \<Rightarrow> raise_m IndexError
           | first # _ \<Rightarrow>
               (case first of
                  [] \<Rightarrow> raise_m IndexError
                | h # _ \<Rightarrow>
                    let face_dist = distance h;
                        person_id = entity_get (entity h) ''person_id''
                    in
                    if face_dist > face_dist_threshold then
                      return_m (Outcome [(''status'', Val (PStr ''success'')),
                                         (''message'', Val (PStr ''No similar faces were found in the database''))])
                    else
                      return_m (Outcome [(''status'', Val (PStr ''success'')),
                                         (''message'', Val (PStr (''Detected face matches id '' @ py_str person_id))),
                                         (''match_id'', Val person_id)])))))"

text \<open>The default of the parameter \<^verbatim>\<open>face_dist_threshold\<close>.\<close>

definition face_dist_threshold_default :: real where
  "face_dist_threshold_default = 0.1"

section \<open>api/milvus.py\<close>

text \<open>
  \<^verbatim>\<open>get_registered_person(milvus_conn, person_id)\<close>, with the collection of the world
  as \<^verbatim>\<open>milvus_conn\<close>. The function has no \<^verbatim>\<open>return\<close> after the test for an empty
  result, so it returns Python's \<^verbatim>\<open>None\<close> there (\<open>None\<close> below).
\<close>

definition get_registered_person :: "env \<Rightarrow> pyval \<Rightarrow> outcome option prog" where
  "get_registered_person ev person_id =
     try_except
       (bind_m (collection_query ev person_id) (\<lambda>results.
          if results = [] then
            return_m (Some [(''status'', Val (PStr ''failed'')),
                            (''message'', Val (PStr (''Person with id '' @ py_str person_id
                                                     @ '' not found in database'')))])
          else return_m None))
       (\<lambda>e. e = MilvusException)
       (\<lambda>excep. return_m (Some [(''status'', Val (PStr ''failed'')), (''message'', ExcObj excep)]))"

section \<open>Auxiliary definitions\<close>

text \<open>The inference result passes both tests at the head of \<^verbatim>\<open>register_face\<close> and
  \<^verbatim>\<open>recognize_face\<close>: a face was detected and the status is not negative.\<close>

definition faces_extracted :: "pred_dict \<Rightarrow> bool" where
  "faces_extracted p \<longleftrightarrow> \<not> (status p = 0 \<and> face_detections p = []) \<and> \<not> status p < 0"

text \<open>The three tails of \<^verbatim>\<open>register_face\<close>: from the cache write on, from the
  construction of the SQL values on, and from the vector insert on. They are the
  sub-terms of the definition above, named for the proofs.\<close>

definition cache_stage :: "env \<Rightarrow> pyval \<Rightarrow> pyval \<Rightarrow> py_dict \<Rightarrow> retval prog" where
  "cache_stage ev person_id birthdate person_data =
     (let redis_key = MYSQL_PERSON_TABLE @ ''_'' @ py_str person_id;
          person_data = AList.update ''birthdate'' (PStr (py_str birthdate)) person_data
      in
      bind_m (redis_conn_hset ev redis_key person_data) (\<lambda>_.
      bind_m (redis_conn_expire ev redis_key 3600) (\<lambda>_.
      bind_m (subscript person_data ''person_name'') (\<lambda>person_name.
      return_m (Outcome [(''status'', Val (PStr ''success'')),
                         (''message'', Val (PStr (''Person '' @ py_str person_name
                                                  @ '' successfully registered'')))])))))"

definition mysql_stage :: "env \<Rightarrow> pyval \<Rightarrow> py_dict \<Rightarrow> retval prog" where
  "mysql_stage ev person_id person_data =
          bind_m (subscript person_data ''name'') (\<lambda>name.
          bind_m (subscript person_data ''birthdate'') (\<lambda>birthdate.
          bind_m (subscript person_data ''country'') (\<lambda>country.
          bind_m (subscript person_data ''city'') (\<lambda>city.
          bind_m (subscript person_data ''title'') (\<lambda>title.
          bind_m (subscript person_data ''org'') (\<lambda>org.
          let values = [person_id, name, birthdate, country, city, title, org] in
          bind_m
            (try_finally
               (try_except
                  (bind_m (cursor_execute ev values) (\<lambda>_.
                   bind_m (mysql_conn_commit ev) (\<lambda>_.
                   return_m None)))
                  (\<lambda>e. e = PymysqlError)
                  (\<lambda>e. bind_m (unregister_face ev person_id) (\<lambda>_.
                        return_m (Some (Outcome [(''status'', Val (PStr ''failed'')),
                                                 (''message'', Val (PStr ''mysql insertion error''))])))))
               (cursor_close ev))
            (\<lambda>returned. case returned of Some out \<Rightarrow> return_m out | None \<Rightarrow>
               cache_stage ev person_id birthdate person_data)))))))"

definition insert_stage :: "env \<Rightarrow> real list \<Rightarrow> pyval \<Rightarrow> py_dict \<Rightarrow> retval prog" where
  "insert_stage ev face_vector person_id person_data =
          bind_m
            (try_except
               (bind_m (collection_insert ev face_vector person_id) (\<lambda>_.
                bind_m (subscript person_data ''name'') (\<lambda>_.
                return_m None)))
               (\<lambda>e. e = MilvusException)
               (\<lambda>e. return_m (Some (Outcome [(''status'', Val (PStr ''failed'')),
                                              (''message'', Val (PStr ''milvus insertion error''))]))))
            (\<lambda>returned. case returned of Some out \<Rightarrow> return_m out | None \<Rightarrow>
          bind_m (collection_flush ev) (\<lambda>_. mysql_stage ev person_id person_data))"

text \<open>A world with empty stores, an environment in which every call completes and the
  inference finds one face, and a candidate of a search.\<close>

definition world0 :: world where
  "world0 = \<lparr>milvus_rows = [], mysql_rows = [], mysql_pending = [], redis_hashes = [],
     redis_ttl = [], calls = []\<rparr>"

definition env0 :: env where
  "env0 = \<lparr>run_inference = (\<lambda>_ _ _. \<lparr>status = 0, face_detections = [[0, 0, 1, 1]],
                                          face_feats = [[1, 2]]\<rparr>),
     query_exc = None, insert_exc = None, flush_exc = None, delete_exc = None,
     search_res = Inr [], execute_exc = None, commit_exc = None, close_exc = None,
     hset_exc = None, expire_exc = None\<rparr>"

definition candidate :: "real \<Rightarrow> int \<Rightarrow> hit" where
  "candidate d i = \<lparr>distance = d, entity = [(''person_id'', PInt i)]\<rparr>"

text \<open>The duplicate check of \<^verbatim>\<open>register_face\<close> lets the call through: the lookup
  raised a \<^verbatim>\<open>MilvusException\<close>, or it ran and found no row of the person.\<close>

definition not_found :: "env \<Rightarrow> pyval \<Rightarrow> world \<Rightarrow> bool" where
  "not_found ev person_id w \<longleftrightarrow>
     query_exc ev = Some MilvusException
     \<or> (query_exc ev = None \<and> person_id \<notin> snd ` set (milvus_rows w))"

text \<open>A person record with the columns of the \<^verbatim>\<open>INSERT\<close> statement.\<close>

definition alice :: py_dict where
  "alice = [(''id'', PInt 1), (''name'', PStr ''Alice''), (''birthdate'', PStr ''1990-01-01''),
            (''country'', PStr ''NP''), (''city'', PStr ''Kathmandu''), (''title'', PStr ''Dr''),
            (''org'', PStr ''Acme'')]"

text \<open>The rejection-class results of \<^verbatim>\<open>register_face\<close>: no face detected, the
  inference result returned on a negative status, and the duplicate identity.\<close>

definition is_rejection :: "py_dict \<Rightarrow> retval \<Rightarrow> bool" where
  "is_rejection person_data r =
     (case r of
        FailedPred p \<Rightarrow> True
      | Outcome d \<Rightarrow>
          d = [(''status'', Val (PStr ''failed'')),
               (''message'', Val (PStr ''No faces were detected in the image''))]
          \<or> (case map_of person_data ''id'' of
                None \<Rightarrow> False
              | Some person_id \<Rightarrow>
                  d = [(''status'', Val (PStr ''failed'')),
                       (''message'', Val (PStr (''person with id '' @ py_str person_id
                                                @ '' already exists in milvus db'')))]))"

section \<open>Basic facts\<close>

lemmas prog_defs = bind_m_def return_m_def raise_m_def try_except_def try_finally_def
  external_def log_call_def subscript_def

lemma str_int_small [simp]: "0 \<le> i \<Longrightarrow> i < 10 \<Longrightarrow> str_int i = [digit_char (nat i)]"
  by (simp add: str_int_def)

lemma register_face_stages:
  "register_face ev model_name file_path threshold person_data =
     (let pred_dict = run_inference ev file_path model_name threshold in
      if status pred_dict = 0 \<and> face_detections pred_dict = [] then
        return_m (Outcome [(''status'', Val (PStr ''failed'')),
                           (''message'', Val (PStr ''No faces were detected in the image''))])
      else if status pred_dict < 0 then
        return_m (FailedPred pred_dict)
      else
        bind_m (subscript person_data ''id'') (\<lambda>person_id.
        bind_m (get_registered_face ev person_id) (\<lambda>registered.
        bind_m (subscript registered ''status'') (\<lambda>registered_status.
        if registered_status = Val (PStr ''success'') then
          return_m (Outcome [(''status'', Val (PStr ''failed'')),
                             (''message'', Val (PStr (''person with id '' @ py_str person_id
                                                      @ '' already exists in milvus db'')))])
        else
          (case face_feats pred_dict of
             [] \<Rightarrow> raise_m IndexError
           | face_vector # _ \<Rightarrow> insert_stage ev face_vector person_id person_data)))))"
  unfolding register_face_def insert_stage_def mysql_stage_def cache_stage_def by (rule refl)

lemma cache_stage_rows: "milvus_rows (snd (cache_stage ev p b d w)) = milvus_rows w"
  by (simp add: cache_stage_def prog_defs redis_conn_hset_def redis_conn_expire_def Let_def
      split: option.split)

lemma cache_stage_mono: "prefix l (calls w) \<Longrightarrow> prefix l (calls (snd (cache_stage ev p b d w)))"
  by (auto simp: cache_stage_def prog_defs redis_conn_hset_def redis_conn_expire_def Let_def
      prefix_def split: option.split)

lemma cache_stage_result:
  "fst (cache_stage ev p b d w) = Inr r \<Longrightarrow>
   \<exists>n. r = Outcome [(''status'', Val (PStr ''success'')), (''message'', Val (PStr n))]"
  by (auto simp: cache_stage_def prog_defs redis_conn_hset_def redis_conn_expire_def Let_def
      split: option.splits)

lemma mysql_stage_mono: "prefix l (calls w) \<Longrightarrow> prefix l (calls (snd (mysql_stage ev p d w)))"
  by (auto simp: mysql_stage_def unregister_face_def prog_defs cursor_execute_def
        mysql_conn_commit_def cursor_close_def collection_delete_def Let_def prefix_def
      intro!: cache_stage_mono [unfolded prefix_def] split: option.split)

lemma mysql_stage_result:
  "fst (mysql_stage ev p d w) = Inr r \<Longrightarrow>
   r = Outcome [(''status'', Val (PStr ''failed'')), (''message'', Val (PStr ''mysql insertion error''))]
   \<or> (\<exists>n. r = Outcome [(''status'', Val (PStr ''success'')), (''message'', Val (PStr n))])"
  by (auto simp: mysql_stage_def unregister_face_def prog_defs cursor_execute_def
        mysql_conn_commit_def cursor_close_def collection_delete_def Let_def
      dest: cache_stage_result split: option.splits if_splits)


text \<open>The first element of \<open>sort_key f xs\<close> has the least key.\<close>

lemma sort_key_hd_least:
  assumes "sort_key f xs = y # ys" and "x \<in> set xs"
  shows "f y \<le> f x"
proof -
  have "sorted (map f (sort_key f xs))" by (rule sorted_sort_key)
  with assms(1) have "\<forall>z\<in>set ys. f y \<le> f z" by simp
  moreover from assms have "x = y \<or> x \<in> set ys"
    by (metis set_ConsD set_sort)
  ultimately show ?thesis by auto
qed

lemma sort_key_hd_mem: "sort_key f xs = y # ys \<Longrightarrow> y \<in> set xs"
  by (metis list.set_intros(1) set_sort)

lemma distances_head_le:
  assumes "distances (h # cs) \<le> distances k" and "sorted (distances k)" and "c \<in> set k"
  shows "distance h \<le> distance c"
proof (cases k)
  case Nil
  with assms(3) show ?thesis by simp
next
  case (Cons c' cs')
  with assms(1) have "distance h \<le> distance c'"
    by (auto simp: distances_def)
  moreover from Cons assms(2,3) have "distance c' \<le> distance c"
    by (auto simp: distances_def)
  ultimately show ?thesis by simp
qed

text \<open>Up to the vector insert.\<close>

lemma get_registered_face_not_found:
  assumes "not_found ev person_id w"
  shows "\<exists>msg. get_registered_face ev person_id w =
           (Inr [(''status'', Val (PStr ''failed'')), (''message'', msg)],
            w\<lparr>calls := calls w @ [CQuery person_id]\<rparr>)"
proof -
  from assms have "query_exc ev = Some MilvusException
     \<or> (query_exc ev = None \<and> filter (\<lambda>r. snd r = person_id) (milvus_rows w) = [])"
    by (auto simp: not_found_def filter_empty_conv)
  then show ?thesis
    by (auto simp: get_registered_face_def prog_defs collection_query_def)
qed

lemma register_face_to_insert_stage:
  assumes "faces_extracted (run_inference ev file_path model_name threshold)"
    and "face_feats (run_inference ev file_path model_name threshold) = face_vector # others"
    and "map_of person_data ''id'' = Some person_id"
    and "not_found ev person_id w"
  shows "register_face ev model_name file_path threshold person_data w =
           insert_stage ev face_vector person_id person_data (w\<lparr>calls := calls w @ [CQuery person_id]\<rparr>)"
proof -
  from assms(4) obtain msg where "get_registered_face ev person_id w =
           (Inr [(''status'', Val (PStr ''failed'')), (''message'', msg)],
            w\<lparr>calls := calls w @ [CQuery person_id]\<rparr>)"
    using get_registered_face_not_found by blast
  with assms(1-3) show ?thesis
    by (auto simp: register_face_stages faces_extracted_def Let_def bind_m_def subscript_def
          return_m_def)
qed

text \<open>From the vector insert on: the insert is the next call, and the outcome of the
  lookup plays no part.\<close>

lemma insert_stage_logs_insert:
  "prefix (calls w @ [CInsert v p]) (calls (snd (insert_stage ev v p d w)))"
  by (auto simp: insert_stage_def prog_defs collection_insert_def collection_flush_def
      intro!: mysql_stage_mono split: option.split)

lemma cache_stage_query_exc:
  "cache_stage (ev\<lparr>query_exc := q\<rparr>) p b d = cache_stage ev p b d"
  by (simp add: cache_stage_def redis_conn_hset_def redis_conn_expire_def)

lemma mysql_stage_query_exc:
  "mysql_stage (ev\<lparr>query_exc := q\<rparr>) p d = mysql_stage ev p d"
  by (simp add: mysql_stage_def unregister_face_def collection_delete_def cursor_execute_def
        mysql_conn_commit_def cursor_close_def cache_stage_query_exc cong: option.case_cong)

lemma insert_stage_query_exc:
  "insert_stage (ev\<lparr>query_exc := q\<rparr>) v p d = insert_stage ev v p d"
  by (simp add: insert_stage_def collection_insert_def collection_flush_def
        mysql_stage_query_exc cong: option.case_cong)

text \<open>The definitions that evaluate an operation at a concrete input.\<close>

lemmas eval_defs = register_face_def get_registered_face_def unregister_face_def
  get_registered_person_def prog_defs
  collection_query_def collection_insert_def collection_flush_def collection_delete_def
  cursor_execute_def mysql_conn_commit_def cursor_close_def redis_conn_hset_def
  redis_conn_expire_def MYSQL_PERSON_TABLE_def digit_char_def Let_def

text \<open>What the tails return, and the rows they leave behind on success.\<close>

lemma mysql_stage_success_rows:
  "fst (mysql_stage ev p d w) = Inr (Outcome out) \<Longrightarrow>
   map_of out ''status'' = Some (Val (PStr ''success'')) \<Longrightarrow>
   milvus_rows (snd (mysql_stage ev p d w)) = milvus_rows w"
  by (auto simp: mysql_stage_def unregister_face_def prog_defs cursor_execute_def
        mysql_conn_commit_def cursor_close_def collection_delete_def Let_def cache_stage_rows
      split: option.splits if_splits)

lemma insert_stage_result:
  "fst (insert_stage ev v p d w) = Inr r \<Longrightarrow>
   r = Outcome [(''status'', Val (PStr ''failed'')), (''message'', Val (PStr ''milvus insertion error''))]
   \<or> r = Outcome [(''status'', Val (PStr ''failed'')), (''message'', Val (PStr ''mysql insertion error''))]
   \<or> (\<exists>n. r = Outcome [(''status'', Val (PStr ''success'')), (''message'', Val (PStr n))])"
  by (auto simp: insert_stage_def prog_defs collection_insert_def collection_flush_def
      dest: mysql_stage_result split: option.splits if_splits)

lemma insert_stage_not_rejection:
  "fst (insert_stage ev v p d w) = Inr r \<Longrightarrow> \<not> is_rejection person_data r"
  by (auto simp: is_rejection_def dest!: insert_stage_result split: option.splits)

lemma insert_stage_success_rows:
  "fst (insert_stage ev v p d w) = Inr (Outcome out) \<Longrightarrow>
   map_of out ''status'' = Some (Val (PStr ''success'')) \<Longrightarrow>
   milvus_rows (snd (insert_stage ev v p d w)) = milvus_rows w @ [(v, p)]"
  by (auto simp: insert_stage_def prog_defs collection_insert_def collection_flush_def
        mysql_stage_success_rows split: option.splits if_splits)

lemma register_face_success_row:
  assumes "fst (register_face ev model_name file_path threshold person_data w) = Inr (Outcome out)"
    and "map_of out ''status'' = Some (Val (PStr ''success''))"
    and "map_of person_data ''id'' = Some person_id"
  shows "person_id \<in> snd ` set (milvus_rows (snd (register_face ev model_name file_path threshold
                                                     person_data w)))"
  using assms
  by (auto simp: register_face_stages get_registered_face_def prog_defs collection_query_def
        Let_def insert_stage_success_rows
      split: option.splits if_splits list.splits)

section \<open>Claims\<close>

text \<open>
  Claim C8. Unregistering a person who has no row in the collection is not an error:
  whenever the collection accepts the delete call, \<^verbatim>\<open>unregister_face\<close> returns the
  success dictionary and leaves the rows as they were, and a second call returns the
  same as the first. The function never looks at whether a row exists.
\<close>

theorem unregister_face_absent:
  assumes "delete_exc ev = None" and "person_id \<notin> snd ` set (milvus_rows w)"
  shows "fst (unregister_face ev person_id w) =
           Inr [(''status'', Val (PStr ''success'')),
                (''message'', Val (PStr (''Person with id '' @ py_str person_id @ '' unregistered'')))]
       \<and> milvus_rows (snd (unregister_face ev person_id w)) = milvus_rows w
       \<and> fst (unregister_face ev person_id (snd (unregister_face ev person_id w))) =
           fst (unregister_face ev person_id w)"
proof -
  from assms(2) have "filter (\<lambda>r. snd r \<noteq> person_id) (milvus_rows w) = milvus_rows w"
    by (auto simp: filter_id_conv)
  with assms(1) show ?thesis
    by (simp add: unregister_face_def prog_defs collection_delete_def)
qed

theorem unregister_face_absent_witness:
  "delete_exc env0 = None
   \<and> PInt 1 \<notin> snd ` set (milvus_rows (world0\<lparr>milvus_rows := [([1, 2], PInt 2)]\<rparr>))
   \<and> fst (unregister_face env0 (PInt 1) (world0\<lparr>milvus_rows := [([1, 2], PInt 2)]\<rparr>)) =
        Inr [(''status'', Val (PStr ''success'')),
             (''message'', Val (PStr ''Person with id 1 unregistered''))]
   \<and> milvus_rows (snd (unregister_face env0 (PInt 1) (world0\<lparr>milvus_rows := [([1, 2], PInt 2)]\<rparr>)))
        = [([1, 2], PInt 2)]"
  using unregister_face_absent [where ev = env0 and person_id = "PInt 1"
      and w = "world0\<lparr>milvus_rows := [([1, 2], PInt 2)]\<rparr>"]
  by (simp add: env0_def world0_def digit_char_def)

text \<open>
  Claim C3, as the code has it. \<^verbatim>\<open>recognize_face\<close> rejects with a strict
  \<^verbatim>\<open>face_dist > face_dist_threshold\<close>. Let \<open>h\<close> be the candidate the code selects, the
  first hit of the first list after sorting. If its distance is at most the threshold,
  equal to it included, the returned dictionary is the match, with \<open>h\<close>'s identity
  under \<^verbatim>\<open>match_id\<close>.
\<close>

theorem recognize_face_within_threshold:
  assumes "faces_extracted (run_inference ev file_path model_name threshold)"
    and "search_res ev = Inr results"
    and "sort_key distances results = (h # cs) # rest"
    and "distance h \<le> face_dist_threshold"
  shows "fst (recognize_face ev model_name file_path threshold face_dist_threshold w) =
           Inr (Outcome [(''status'', Val (PStr ''success'')),
                  (''message'', Val (PStr (''Detected face matches id ''
                                           @ py_str (entity_get (entity h) ''person_id'')))),
                  (''match_id'', Val (entity_get (entity h) ''person_id''))])"
proof -
  from assms(3) have "results \<noteq> []" by auto
  with assms show ?thesis
    by (simp add: recognize_face_def faces_extracted_def prog_defs collection_search_def Let_def)
qed

theorem recognize_face_within_threshold_witness:
  "faces_extracted (run_inference (env0\<lparr>search_res := Inr [[candidate 0.3 9], [candidate 0.1 7]]\<rparr>) ''img'' ''m1'' 0.5)
   \<and> sort_key distances [[candidate 0.3 9], [candidate 0.1 7]] = (candidate 0.1 7 # []) # [[candidate 0.3 9]]
   \<and> distance (candidate 0.1 7) \<le> 0.1
   \<and> fst (recognize_face (env0\<lparr>search_res := Inr [[candidate 0.3 9], [candidate 0.1 7]]\<rparr>) ''m1'' ''img'' 0.5 0.1 world0)
        = Inr (Outcome [(''status'', Val (PStr ''success'')),
                        (''message'', Val (PStr ''Detected face matches id 7'')),
                        (''match_id'', Val (PInt 7))])"
  using recognize_face_within_threshold [of "env0\<lparr>search_res := Inr [[candidate 0.3 9], [candidate 0.1 7]]\<rparr>"
      "''img''" "''m1''" "0.5" "[[candidate 0.3 9], [candidate 0.1 7]]" "candidate 0.1 7" "[]"
      "[[candidate 0.3 9]]" "0.1" world0]
  by (simp add: env0_def faces_extracted_def candidate_def distances_def entity_get_def digit_char_def)

text \<open>The claim as stated fails: a single candidate at distance 0.1 with threshold 0.1
  is reported as a match for identity 7.\<close>

theorem recognize_face_at_threshold_counterexample:
  "fst (recognize_face (env0\<lparr>search_res := Inr [[candidate 0.1 7]]\<rparr>) ''m1'' ''img'' 0.5 0.1 world0)
     = Inr (Outcome [(''status'', Val (PStr ''success'')),
                     (''message'', Val (PStr ''Detected face matches id 7'')),
                     (''match_id'', Val (PInt 7))])"
  by (simp add: recognize_face_def env0_def world0_def candidate_def prog_defs collection_search_def
        distances_def entity_get_def digit_char_def)



text \<open>
  Claim C4, as the code has it. \<^verbatim>\<open>sorted(results, key=lambda k: k.distances)\<close> orders
  the lists of hits, one list per query vector, by their lists of distances; the
  candidates inside a list stay in the order the search returned them. So the selected
  candidate has the minimum distance of all candidates, whatever the order of the lists,
  provided each list comes back ascending by distance.
\<close>

theorem recognize_face_selects_minimum:
  assumes "faces_extracted (run_inference ev file_path model_name threshold)"
    and "search_res ev = Inr results"
    and "results \<noteq> []" and "[] \<notin> set results"
    and "\<forall>k\<in>set results. sorted (distances k)"
  shows "\<exists>h\<in>set (concat results).
           (\<forall>c\<in>set (concat results). distance h \<le> distance c)
         \<and> fst (recognize_face ev model_name file_path threshold face_dist_threshold w) =
             Inr (Outcome
               (if face_dist_threshold < distance h then
                  [(''status'', Val (PStr ''success'')),
                   (''message'', Val (PStr ''No similar faces were found in the database''))]
                else
                  [(''status'', Val (PStr ''success'')),
                   (''message'', Val (PStr (''Detected face matches id ''
                                            @ py_str (entity_get (entity h) ''person_id'')))),
                   (''match_id'', Val (entity_get (entity h) ''person_id''))]))"
proof -
  from assms(3) obtain first rest where s: "sort_key distances results = first # rest"
    by (cases "sort_key distances results") (auto dest: arg_cong [where f = length])
  then have m: "first \<in> set results" by (rule sort_key_hd_mem)
  with assms(4) obtain h cs where f: "first = h # cs" by (cases first) auto
  from m f have "h \<in> set (concat results)" by force
  moreover have "\<forall>c\<in>set (concat results). distance h \<le> distance c"
  proof
    fix c assume "c \<in> set (concat results)"
    then obtain k where k: "k \<in> set results" "c \<in> set k" by auto
    from s k(1) have "distances first \<le> distances k" by (rule sort_key_hd_least)
    with f k assms(5) show "distance h \<le> distance c"
      by (auto intro: distances_head_le)
  qed
  moreover from assms s f
  have "fst (recognize_face ev model_name file_path threshold face_dist_threshold w) =
             Inr (Outcome
               (if face_dist_threshold < distance h then
                  [(''status'', Val (PStr ''success'')),
                   (''message'', Val (PStr ''No similar faces were found in the database''))]
                else
                  [(''status'', Val (PStr ''success'')),
                   (''message'', Val (PStr (''Detected face matches id ''
                                            @ py_str (entity_get (entity h) ''person_id'')))),
                   (''match_id'', Val (entity_get (entity h) ''person_id''))]))"
    by (simp add: recognize_face_def faces_extracted_def prog_defs collection_search_def Let_def)
  ultimately show ?thesis by blast
qed

theorem recognize_face_selects_minimum_witness:
  "fst (recognize_face
          (env0\<lparr>search_res := Inr [[candidate 0.2 3, candidate 0.3 9], [candidate 0.05 7]]\<rparr>)
          ''m1'' ''img'' 0.5 0.1 world0) =
     Inr (Outcome [(''status'', Val (PStr ''success'')),
            (''message'', Val (PStr ''Detected face matches id 7'')),
            (''match_id'', Val (PInt 7))])"
  using recognize_face_selects_minimum [where
      ev = "env0\<lparr>search_res := Inr [[candidate 0.2 3, candidate 0.3 9], [candidate 0.05 7]]\<rparr>"
      and file_path = "''img''" and model_name = "''m1''" and threshold = "0.5"
      and results = "[[candidate 0.2 3, candidate 0.3 9], [candidate 0.05 7]]"
      and face_dist_threshold = "0.1" and w = world0]
  by (auto simp: env0_def faces_extracted_def candidate_def distances_def entity_get_def
      digit_char_def)

text \<open>The claim as stated fails: candidates returned out of order inside one list of hits
  are not re-sorted, and identity 3 at distance 0.2 is reported although identity 7 is at
  distance 0.05.\<close>

theorem recognize_face_unsorted_candidates_counterexample:
  "fst (recognize_face
          (env0\<lparr>search_res := Inr [[candidate 0.2 3, candidate 0.05 7, candidate 0.3 9]]\<rparr>)
          ''m1'' ''img'' 0.5 0.5 world0) =
     Inr (Outcome [(''status'', Val (PStr ''success'')),
            (''message'', Val (PStr ''Detected face matches id 3'')),
            (''match_id'', Val (PInt 3))])"
  by (simp add: recognize_face_def env0_def world0_def candidate_def prog_defs collection_search_def
        distances_def entity_get_def digit_char_def)

text \<open>
  Claim C1. In a call of \<^verbatim>\<open>register_face\<close> whose vector insert succeeds and whose
  metadata insert fails (\<^verbatim>\<open>cursor.execute\<close> or the commit raises \<^verbatim>\<open>pymysql.Error\<close>),
  the handler calls \<^verbatim>\<open>unregister_face(person_id)\<close>, which issues the delete for that
  person, and the call returns the failed dictionary with the message of the metadata
  insertion error. This is so when the delete succeeds, and the rows of the person are
  gone then, and when the delete itself raises a \<^verbatim>\<open>MilvusException\<close>, and the new row
  stays then.
\<close>

theorem register_face_compensates:
  assumes "faces_extracted (run_inference ev file_path model_name threshold)"
    and "face_feats (run_inference ev file_path model_name threshold) = face_vector # others"
    and "map_of person_data ''id'' = Some person_id"
    and "map_of person_data ''name'' = Some name"
    and "map_of person_data ''birthdate'' = Some birthdate"
    and "map_of person_data ''country'' = Some country"
    and "map_of person_data ''city'' = Some city"
    and "map_of person_data ''title'' = Some title"
    and "map_of person_data ''org'' = Some org"
    and "not_found ev person_id w"
    and "insert_exc ev = None" and "flush_exc ev = None"
    and "execute_exc ev = Some PymysqlError
         \<or> (execute_exc ev = None \<and> commit_exc ev = Some PymysqlError)"
    and "delete_exc ev = None \<or> delete_exc ev = Some MilvusException"
    and "close_exc ev = None"
  shows "fst (register_face ev model_name file_path threshold person_data w) =
           Inr (Outcome [(''status'', Val (PStr ''failed'')),
                         (''message'', Val (PStr ''mysql insertion error''))])
       \<and> calls (snd (register_face ev model_name file_path threshold person_data w)) =
           calls w @ [CQuery person_id, CInsert face_vector person_id, CFlush,
                      CExecute [person_id, name, birthdate, country, city, title, org]]
                   @ (if execute_exc ev = None then [CCommit] else [])
                   @ [CDelete person_id, CClose]
       \<and> milvus_rows (snd (register_face ev model_name file_path threshold person_data w)) =
           (if delete_exc ev = None then filter (\<lambda>r. snd r \<noteq> person_id) (milvus_rows w)
            else milvus_rows w @ [(face_vector, person_id)])"
proof -
  note to_stage = register_face_to_insert_stage [OF assms(1,2,3,10)]
  from assms(13,14) assms(4-9) assms(11,12,15) show ?thesis
    unfolding to_stage
    by (auto simp: insert_stage_def mysql_stage_def unregister_face_def prog_defs
          collection_insert_def collection_flush_def collection_delete_def cursor_execute_def
          mysql_conn_commit_def cursor_close_def Let_def)
qed

theorem register_face_compensates_witness:
  "fst (register_face (env0\<lparr>execute_exc := Some PymysqlError, delete_exc := Some MilvusException\<rparr>)
          ''m1'' ''img'' 0.5 alice world0) =
     Inr (Outcome [(''status'', Val (PStr ''failed'')),
                   (''message'', Val (PStr ''mysql insertion error''))])
   \<and> calls (snd (register_face (env0\<lparr>execute_exc := Some PymysqlError, delete_exc := Some MilvusException\<rparr>)
          ''m1'' ''img'' 0.5 alice world0)) =
     [CQuery (PInt 1), CInsert [1, 2] (PInt 1), CFlush,
      CExecute [PInt 1, PStr ''Alice'', PStr ''1990-01-01'', PStr ''NP'', PStr ''Kathmandu'',
                PStr ''Dr'', PStr ''Acme''],
      CDelete (PInt 1), CClose]"
  using register_face_compensates [where
      ev = "env0\<lparr>execute_exc := Some PymysqlError, delete_exc := Some MilvusException\<rparr>"
      and model_name = "''m1''" and file_path = "''img''" and threshold = "0.5"
      and person_data = alice and w = world0 and face_vector = "[1, 2]" and others = "[]"
      and person_id = "PInt 1" and name = "PStr ''Alice''" and birthdate = "PStr ''1990-01-01''"
      and country = "PStr ''NP''" and city = "PStr ''Kathmandu''" and title = "PStr ''Dr''"
      and org = "PStr ''Acme''"]
  by (simp add: env0_def world0_def alice_def faces_extracted_def not_found_def)

text \<open>
  Claim C10. When the query of the duplicate check raises a \<^verbatim>\<open>MilvusException\<close>,
  \<^verbatim>\<open>get_registered_face\<close> returns status \<^verbatim>\<open>failed\<close> with the exception as message, and
  \<^verbatim>\<open>register_face\<close> goes on as for a person who is not registered: its next call is the
  vector insert, also when the collection already holds a row of that person, and where
  no such row exists the whole call behaves exactly as it does when the query succeeds.
\<close>

theorem register_face_lookup_failure_bypasses:
  assumes "query_exc ev = Some MilvusException"
    and "faces_extracted (run_inference ev file_path model_name threshold)"
    and "face_feats (run_inference ev file_path model_name threshold) = face_vector # others"
    and "map_of person_data ''id'' = Some person_id"
  shows "fst (get_registered_face ev person_id w) =
           Inr [(''status'', Val (PStr ''failed'')), (''message'', ExcObj MilvusException)]
       \<and> prefix (calls w @ [CQuery person_id, CInsert face_vector person_id])
                 (calls (snd (register_face ev model_name file_path threshold person_data w)))
       \<and> (person_id \<notin> snd ` set (milvus_rows w) \<longrightarrow>
            register_face ev model_name file_path threshold person_data w =
            register_face (ev\<lparr>query_exc := None\<rparr>) model_name file_path threshold person_data w)"
proof (intro conjI impI)
  from assms(1) show "fst (get_registered_face ev person_id w) =
           Inr [(''status'', Val (PStr ''failed'')), (''message'', ExcObj MilvusException)]"
    by (simp add: get_registered_face_def prog_defs collection_query_def)
next
  from assms(1) have nf: "not_found ev person_id w" by (simp add: not_found_def)
  show "prefix (calls w @ [CQuery person_id, CInsert face_vector person_id])
                 (calls (snd (register_face ev model_name file_path threshold person_data w)))"
    unfolding register_face_to_insert_stage [OF assms(2,3,4) nf]
    using insert_stage_logs_insert [of "w\<lparr>calls := calls w @ [CQuery person_id]\<rparr>"
        face_vector person_id ev person_data]
    by simp
next
  assume absent: "person_id \<notin> snd ` set (milvus_rows w)"
  from assms(1) have nf: "not_found ev person_id w" by (simp add: not_found_def)
  from absent have nf': "not_found (ev\<lparr>query_exc := None\<rparr>) person_id w"
    by (simp add: not_found_def)
  from assms(2,3)
  have "faces_extracted (run_inference (ev\<lparr>query_exc := None\<rparr>) file_path model_name threshold)"
    and "face_feats (run_inference (ev\<lparr>query_exc := None\<rparr>) file_path model_name threshold)
           = face_vector # others"
    by simp_all
  from register_face_to_insert_stage [OF this assms(4) nf']
    register_face_to_insert_stage [OF assms(2,3,4) nf]
  show "register_face ev model_name file_path threshold person_data w =
        register_face (ev\<lparr>query_exc := None\<rparr>) model_name file_path threshold person_data w"
    by (simp add: insert_stage_query_exc)
qed

theorem register_face_lookup_failure_bypasses_witness:
  "fst (get_registered_face (env0\<lparr>query_exc := Some MilvusException\<rparr>) (PInt 1)
          (world0\<lparr>milvus_rows := [([3, 4], PInt 1)]\<rparr>)) =
     Inr [(''status'', Val (PStr ''failed'')), (''message'', ExcObj MilvusException)]
   \<and> prefix [CQuery (PInt 1), CInsert [1, 2] (PInt 1)]
        (calls (snd (register_face (env0\<lparr>query_exc := Some MilvusException\<rparr>) ''m1'' ''img'' 0.5 alice
                       (world0\<lparr>milvus_rows := [([3, 4], PInt 1)]\<rparr>))))"
  using register_face_lookup_failure_bypasses [where
      ev = "env0\<lparr>query_exc := Some MilvusException\<rparr>"
      and model_name = "''m1''" and file_path = "''img''" and threshold = "0.5"
      and person_data = alice and w = "world0\<lparr>milvus_rows := [([3, 4], PInt 1)]\<rparr>"
      and face_vector = "[1, 2]" and others = "[]" and person_id = "PInt 1"]
  by (simp add: env0_def world0_def alice_def faces_extracted_def)

text \<open>
  Claim C5, as the code has it. Neither \<^verbatim>\<open>collection.flush()\<close> nor the two cache calls
  are inside a \<^verbatim>\<open>try\<close>. An exception raised by the flush after the vector insert leaves
  \<^verbatim>\<open>register_face\<close> in place of a returned dictionary: the new row stays and no further
  call is made. An exception raised by \<^verbatim>\<open>hset\<close> or \<^verbatim>\<open>expire\<close> after the metadata insert
  does the same, with the vector row and the committed metadata row in place.
\<close>

theorem register_face_unguarded_steps:
  assumes "faces_extracted (run_inference ev file_path model_name threshold)"
    and "face_feats (run_inference ev file_path model_name threshold) = face_vector # others"
    and "map_of person_data ''id'' = Some person_id"
    and "map_of person_data ''name'' = Some name"
    and "map_of person_data ''birthdate'' = Some birthdate"
    and "map_of person_data ''country'' = Some country"
    and "map_of person_data ''city'' = Some city"
    and "map_of person_data ''title'' = Some title"
    and "map_of person_data ''org'' = Some org"
    and "not_found ev person_id w"
    and "insert_exc ev = None"
  shows "(flush_exc ev = Some e \<longrightarrow>
            fst (register_face ev model_name file_path threshold person_data w) = Inl e
          \<and> milvus_rows (snd (register_face ev model_name file_path threshold person_data w)) =
              milvus_rows w @ [(face_vector, person_id)]
          \<and> calls (snd (register_face ev model_name file_path threshold person_data w)) =
              calls w @ [CQuery person_id, CInsert face_vector person_id, CFlush])
       \<and> (flush_exc ev = None \<and> execute_exc ev = None \<and> commit_exc ev = None
            \<and> close_exc ev = None
            \<and> (hset_exc ev = Some e \<or> hset_exc ev = None \<and> expire_exc ev = Some e) \<longrightarrow>
            fst (register_face ev model_name file_path threshold person_data w) = Inl e
          \<and> milvus_rows (snd (register_face ev model_name file_path threshold person_data w)) =
              milvus_rows w @ [(face_vector, person_id)]
          \<and> mysql_rows (snd (register_face ev model_name file_path threshold person_data w)) =
              mysql_rows w @ mysql_pending w
                @ [[person_id, name, birthdate, country, city, title, org]])"
proof -
  note to_stage = register_face_to_insert_stage [OF assms(1,2,3,10)]
  from assms(4-9) assms(11) show ?thesis
    unfolding to_stage
    by (auto simp: insert_stage_def mysql_stage_def cache_stage_def prog_defs
          collection_insert_def collection_flush_def cursor_execute_def
          mysql_conn_commit_def cursor_close_def redis_conn_hset_def redis_conn_expire_def Let_def)
qed

theorem register_face_unguarded_steps_witness:
  "fst (register_face (env0\<lparr>flush_exc := Some MilvusException\<rparr>) ''m1'' ''img'' 0.5 alice world0)
     = Inl MilvusException
   \<and> milvus_rows (snd (register_face (env0\<lparr>flush_exc := Some MilvusException\<rparr>) ''m1'' ''img'' 0.5
                         alice world0)) = [([1, 2], PInt 1)]
   \<and> calls (snd (register_face (env0\<lparr>flush_exc := Some MilvusException\<rparr>) ''m1'' ''img'' 0.5
                         alice world0)) = [CQuery (PInt 1), CInsert [1, 2] (PInt 1), CFlush]"
  using register_face_unguarded_steps [where
      ev = "env0\<lparr>flush_exc := Some MilvusException\<rparr>"
      and model_name = "''m1''" and file_path = "''img''" and threshold = "0.5"
      and person_data = alice and w = world0 and face_vector = "[1, 2]" and others = "[]"
      and person_id = "PInt 1" and name = "PStr ''Alice''" and birthdate = "PStr ''1990-01-01''"
      and country = "PStr ''NP''" and city = "PStr ''Kathmandu''" and title = "PStr ''Dr''"
      and org = "PStr ''Acme''" and e = MilvusException]
  by (simp add: env0_def world0_def alice_def faces_extracted_def not_found_def)

text \<open>The claim as stated fails: with a person record for which the call succeeds, a
  failing flush or a failing cache write turns the success dictionary into an exception
  at the caller.\<close>

theorem register_face_best_effort_counterexample:
  "fst (register_face env0 ''m1'' ''img'' 0.5 (alice @ [(''person_name'', PStr ''Alice'')]) world0)
     = Inr (Outcome [(''status'', Val (PStr ''success'')),
                     (''message'', Val (PStr ''Person Alice successfully registered''))])
   \<and> fst (register_face (env0\<lparr>flush_exc := Some MilvusException\<rparr>) ''m1'' ''img'' 0.5
            (alice @ [(''person_name'', PStr ''Alice'')]) world0)
     = Inl MilvusException
   \<and> fst (register_face (env0\<lparr>hset_exc := Some RedisError\<rparr>) ''m1'' ''img'' 0.5
            (alice @ [(''person_name'', PStr ''Alice'')]) world0)
     = Inl RedisError"
  by (simp add: eval_defs env0_def world0_def alice_def)

text \<open>
  Claim C2 fails on the code at two places. The success path of \<^verbatim>\<open>register_face\<close>
  builds its message from \<^verbatim>\<open>person_data['person_name']\<close>, a key that a person record
  with the columns of the table does not have (the name is read as
  \<^verbatim>\<open>person_data['name']\<close> everywhere else): after both stores are written the call
  raises \<^verbatim>\<open>KeyError\<close>. And \<^verbatim>\<open>get_registered_person\<close> returns \<^verbatim>\<open>None\<close> for a person who
  is registered, where \<^verbatim>\<open>get_registered_face\<close> returns the success dictionary.
\<close>

theorem register_face_success_path_raises:
  "fst (register_face env0 ''m1'' ''img'' 0.5 alice world0) = Inl (KeyError ''person_name'')
   \<and> mysql_rows (snd (register_face env0 ''m1'' ''img'' 0.5 alice world0)) =
       [[PInt 1, PStr ''Alice'', PStr ''1990-01-01'', PStr ''NP'', PStr ''Kathmandu'',
         PStr ''Dr'', PStr ''Acme'']]
   \<and> fst (get_registered_person env0 (PInt 1) (world0\<lparr>milvus_rows := [([1, 2], PInt 1)]\<rparr>))
       = Inr None
   \<and> fst (get_registered_face env0 (PInt 1) (world0\<lparr>milvus_rows := [([1, 2], PInt 1)]\<rparr>))
       = Inr [(''status'', Val (PStr ''success'')), (''message'', Val (PStr ''Person 1 found''))]"
  by (simp add: eval_defs env0_def world0_def alice_def)

text \<open>
  Claim C7. A call of \<^verbatim>\<open>register_face\<close> that returns a rejection (no face detected,
  the inference error, or the identity already registered) leaves the collection, the
  relational table with its pending statements and the cache as they were; the only
  collaborator call it can have made is the lookup query. No insert and no compensating
  delete is issued.
\<close>

theorem register_face_rejection_no_mutation:
  assumes "fst (register_face ev model_name file_path threshold person_data w) = Inr r"
    and "is_rejection person_data r"
  shows "milvus_rows (snd (register_face ev model_name file_path threshold person_data w)) = milvus_rows w
       \<and> mysql_rows (snd (register_face ev model_name file_path threshold person_data w)) = mysql_rows w
       \<and> mysql_pending (snd (register_face ev model_name file_path threshold person_data w)) = mysql_pending w
       \<and> redis_hashes (snd (register_face ev model_name file_path threshold person_data w)) = redis_hashes w
       \<and> redis_ttl (snd (register_face ev model_name file_path threshold person_data w)) = redis_ttl w
       \<and> (calls (snd (register_face ev model_name file_path threshold person_data w)) = calls w
          \<or> (\<exists>p. calls (snd (register_face ev model_name file_path threshold person_data w))
                    = calls w @ [CQuery p]))"
  using assms
  by (auto simp: register_face_stages get_registered_face_def prog_defs collection_query_def
        Let_def
      dest!: insert_stage_not_rejection [where person_data = person_data]
      split: option.splits if_splits list.splits)

theorem register_face_rejection_no_mutation_witness:
  "is_rejection alice
     (Outcome [(''status'', Val (PStr ''failed'')),
               (''message'', Val (PStr ''person with id 1 already exists in milvus db''))])
   \<and> fst (register_face env0 ''m1'' ''img'' 0.5 alice (world0\<lparr>milvus_rows := [([3, 4], PInt 1)]\<rparr>)) =
       Inr (Outcome [(''status'', Val (PStr ''failed'')),
                     (''message'', Val (PStr ''person with id 1 already exists in milvus db''))])
   \<and> milvus_rows (snd (register_face env0 ''m1'' ''img'' 0.5 alice
                          (world0\<lparr>milvus_rows := [([3, 4], PInt 1)]\<rparr>))) = [([3, 4], PInt 1)]
   \<and> mysql_rows (snd (register_face env0 ''m1'' ''img'' 0.5 alice
                         (world0\<lparr>milvus_rows := [([3, 4], PInt 1)]\<rparr>))) = []"
  using register_face_rejection_no_mutation [where ev = env0 and model_name = "''m1''"
      and file_path = "''img''" and threshold = "0.5" and person_data = alice
      and w = "world0\<lparr>milvus_rows := [([3, 4], PInt 1)]\<rparr>"
      and r = "Outcome [(''status'', Val (PStr ''failed'')),
               (''message'', Val (PStr ''person with id 1 already exists in milvus db''))]"]
  by (simp add: eval_defs is_rejection_def env0_def world0_def alice_def)

text \<open>
  Claim C6, as the code has it. Let a first call of \<^verbatim>\<open>register_face\<close> have returned
  status \<^verbatim>\<open>success\<close> or, more generally, have left a row of the person in the
  collection, as a call on a record with the columns of the table does when it runs
  through every store write and raises on the success message. Then a second call for
  the same person identity whose image yields a face and whose lookup query completes
  returns status \<^verbatim>\<open>failed\<close> with the message that the person already exists. The
  decision comes from the query by \<^verbatim>\<open>person_id\<close>: it is the only collaborator call of
  the second call, and the stores are unchanged.
\<close>

theorem register_face_twice:
  assumes first:
      "(\<exists>out. fst (register_face ev_a model_name_a file_path_a threshold_a person_data_a w)
                = Inr (Outcome out)
            \<and> map_of out ''status'' = Some (Val (PStr ''success'')))
       \<or> person_id \<in> snd ` set (milvus_rows
             (snd (register_face ev_a model_name_a file_path_a threshold_a person_data_a w)))"
    and "map_of person_data_a ''id'' = Some person_id"
    and "map_of person_data_b ''id'' = Some person_id"
    and "faces_extracted (run_inference ev_b file_path_b model_name_b threshold_b)"
    and "query_exc ev_b = None"
  shows "fst (register_face ev_b model_name_b file_path_b threshold_b person_data_b
                (snd (register_face ev_a model_name_a file_path_a threshold_a person_data_a w))) =
           Inr (Outcome [(''status'', Val (PStr ''failed'')),
                  (''message'', Val (PStr (''person with id '' @ py_str person_id
                                           @ '' already exists in milvus db'')))])
       \<and> snd (register_face ev_b model_name_b file_path_b threshold_b person_data_b
                (snd (register_face ev_a model_name_a file_path_a threshold_a person_data_a w))) =
           (snd (register_face ev_a model_name_a file_path_a threshold_a person_data_a w))
             \<lparr>calls := calls (snd (register_face ev_a model_name_a file_path_a threshold_a person_data_a w))
                        @ [CQuery person_id]\<rparr>"
proof -
  define w_a where "w_a = snd (register_face ev_a model_name_a file_path_a threshold_a person_data_a w)"
  from first assms(2) have "person_id \<in> snd ` set (milvus_rows w_a)"
    unfolding w_a_def by (auto intro: register_face_success_row)
  then have "filter (\<lambda>r. snd r = person_id) (milvus_rows w_a) \<noteq> []"
    by (auto simp: filter_empty_conv)
  then obtain r rs where "filter (\<lambda>r. snd r = person_id) (milvus_rows w_a) = r # rs"
    by (cases "filter (\<lambda>r. snd r = person_id) (milvus_rows w_a)") auto
  with assms(3-5)
  have "register_face ev_b model_name_b file_path_b threshold_b person_data_b w_a =
          (Inr (Outcome [(''status'', Val (PStr ''failed'')),
                  (''message'', Val (PStr (''person with id '' @ py_str person_id
                                           @ '' already exists in milvus db'')))]),
           w_a\<lparr>calls := calls w_a @ [CQuery person_id]\<rparr>)"
    by (auto simp: register_face_stages faces_extracted_def get_registered_face_def prog_defs
          collection_query_def Let_def)
  then show ?thesis unfolding w_a_def by simp
qed

text \<open>The witness is the scenario on a record with the columns of the table: the first
  call writes both stores and raises on the success message, the second is rejected.\<close>

theorem register_face_twice_witness:
  "fst (register_face env0 ''m1'' ''img'' 0.5 alice world0) = Inl (KeyError ''person_name'')
   \<and> PInt 1 \<in> snd ` set (milvus_rows (snd (register_face env0 ''m1'' ''img'' 0.5 alice world0)))
   \<and> fst (register_face env0 ''m1'' ''img'' 0.5 alice
            (snd (register_face env0 ''m1'' ''img'' 0.5 alice world0))) =
     Inr (Outcome [(''status'', Val (PStr ''failed'')),
                   (''message'', Val (PStr ''person with id 1 already exists in milvus db''))])
   \<and> milvus_rows (snd (register_face env0 ''m1'' ''img'' 0.5 alice
            (snd (register_face env0 ''m1'' ''img'' 0.5 alice world0)))) = [([1, 2], PInt 1)]"
proof -
  have raised: "fst (register_face env0 ''m1'' ''img'' 0.5 alice world0) = Inl (KeyError ''person_name'')"
    by (simp add: eval_defs env0_def world0_def alice_def)
  have rows: "milvus_rows (snd (register_face env0 ''m1'' ''img'' 0.5 alice world0)) = [([1, 2], PInt 1)]"
    by (simp add: eval_defs env0_def world0_def alice_def)
  then have row: "PInt 1 \<in> snd ` set (milvus_rows (snd (register_face env0 ''m1'' ''img'' 0.5 alice world0)))"
    by simp
  from register_face_twice [where ev_a = env0 and ev_b = env0 and model_name_a = "''m1''"
      and model_name_b = "''m1''" and file_path_a = "''img''" and file_path_b = "''img''"
      and threshold_a = "0.5" and threshold_b = "0.5"
      and person_data_a = alice and person_data_b = alice
      and w = world0 and person_id = "PInt 1", OF disjI2 [OF row]]
  have "fst (register_face env0 ''m1'' ''img'' 0.5 alice
            (snd (register_face env0 ''m1'' ''img'' 0.5 alice world0))) =
     Inr (Outcome [(''status'', Val (PStr ''failed'')),
                   (''message'', Val (PStr ''person with id 1 already exists in milvus db''))])
    \<and> milvus_rows (snd (register_face env0 ''m1'' ''img'' 0.5 alice
            (snd (register_face env0 ''m1'' ''img'' 0.5 alice world0)))) = [([1, 2], PInt 1)]"
    using rows by (simp add: alice_def env0_def faces_extracted_def digit_char_def)
  with raised row show ?thesis by simp
qed

text \<open>The claim as stated fails: after a first call that returned \<^verbatim>\<open>success\<close>, a second
  call for the same identity whose lookup query raises a \<^verbatim>\<open>MilvusException\<close> is not
  rejected. It inserts a second row of the person and returns \<^verbatim>\<open>success\<close> again.\<close>

theorem register_face_twice_counterexample:
  "fst (register_face env0 ''m1'' ''img'' 0.5 (alice @ [(''person_name'', PStr ''Alice'')]) world0) =
     Inr (Outcome [(''status'', Val (PStr ''success'')),
                   (''message'', Val (PStr ''Person Alice successfully registered''))])
   \<and> fst (register_face (env0\<lparr>query_exc := Some MilvusException\<rparr>) ''m1'' ''img'' 0.5
            (alice @ [(''person_name'', PStr ''Alice'')])
            (snd (register_face env0 ''m1'' ''img'' 0.5
                    (alice @ [(''person_name'', PStr ''Alice'')]) world0))) =
     Inr (Outcome [(''status'', Val (PStr ''success'')),
                   (''message'', Val (PStr ''Person Alice successfully registered''))])
   \<and> milvus_rows (snd (register_face (env0\<lparr>query_exc := Some MilvusException\<rparr>) ''m1'' ''img'' 0.5
            (alice @ [(''person_name'', PStr ''Alice'')])
            (snd (register_face env0 ''m1'' ''img'' 0.5
                    (alice @ [(''person_name'', PStr ''Alice'')]) world0)))) =
     [([1, 2], PInt 1), ([1, 2], PInt 1)]"
  by (simp add: eval_defs env0_def world0_def alice_def)

end
